theory Spec2Isabelle
  imports Main "HOL-Library.Word"
begin

section \<open>The dynamic-DNS agent of \<^verbatim>\<open>main.go\<close>\<close>

text \<open>
  The program discovers the public IP address with a DNS query, fetches the DNS "A"
  record of a zone from the provider, and updates the record when the two addresses
  differ; \<^verbatim>\<open>main\<close> repeats this on every tick of a ticker.

  Everything outside the program is an input of the model: the answer of the DNS
  resolver, the answers of the provider's API, the settings read by the configuration
  library, and the two library functions \<^verbatim>\<open>net.ParseIP\<close> and
  \<^verbatim>\<open>net.IP.String\<close>, which are parameters (\<open>P\<close> and \<open>S\<close> below). What the
  program does to the outside (API calls, log lines) is returned as a list of events,
  in program order.
\<close>

subsection \<open>Data\<close>

text \<open>Go's \<^verbatim>\<open>error\<close> is modelled by its message; \<^verbatim>\<open>nil\<close> is \<open>None\<close>.\<close>

type_synonym error = string

text \<open>
  \<^verbatim>\<open>net.IP\<close> is a byte slice; the \<^verbatim>\<open>nil\<close> slice and the empty slice both
  have length 0 and are the empty list.
\<close>

type_synonym net_IP = "8 word list"

record IPAddr =
  IP :: net_IP
  Zone :: string

text \<open>\<^verbatim>\<open>type resolver struct\<close>\<close>

record resolver =
  addr :: string
  resolver :: string
  ip :: "IPAddr list"

text \<open>
  \<^verbatim>\<open>cf.DNSRecord\<close>, with the fields the program reads or writes. A struct copy
  followed by an assignment to \<^verbatim>\<open>Content\<close> is a record update of \<open>Content\<close>.
\<close>

record DNSRecord =
  ID :: string
  Type :: string
  Name :: string
  Content :: string
  ZoneID :: string

definition DNSRecord_zero :: DNSRecord where
  "DNSRecord_zero = \<lparr>ID = [], Type = [], Name = [], Content = [], ZoneID = []\<rparr>"

text \<open>
  The three methods of \<^verbatim>\<open>*cf.API\<close> the program calls. Each is given by what it
  answers during the tick at hand; a Go result pair \<^verbatim>\<open>(v, err)\<close> is a pair with an
  \<open>error option\<close>.
\<close>

record API =
  ZoneIDByName :: "string \<Rightarrow> string \<times> error option"
  DNSRecords :: "string \<Rightarrow> DNSRecord \<Rightarrow> DNSRecord list \<times> error option"
  UpdateDNSRecord :: "string \<Rightarrow> string \<Rightarrow> DNSRecord \<Rightarrow> error option"

text \<open>\<^verbatim>\<open>type dynIP struct\<close>\<close>

record dynIP =
  api :: API
  zoneName :: string
  record_d :: DNSRecord
  aRecord :: string
  rIP :: net_IP
  dIP :: net_IP

datatype level = FatalLevel | ErrorLevel | WarnLevel | InfoLevel

datatype event =
    DNSQuery string string
  | CallZoneIDByName string
  | CallDNSRecords string DNSRecord
  | CallUpdateDNSRecord string string DNSRecord
  | Log level string

datatype panic = IndexOutOfRange nat nat | NonPositiveInterval

subsection \<open>Addresses: \<^verbatim>\<open>net.IP.To4\<close> and \<^verbatim>\<open>net.IP.Equal\<close> of Go's standard library\<close>

definition IPv4len :: nat where
  "IPv4len = 4"

definition IPv6len :: nat where
  "IPv6len = 16"

definition v4InV6Prefix :: net_IP where
  "v4InV6Prefix = [0, 0, 0, 0, 0, 0, 0, 0, 0, 0, 255, 255]"

fun isZeros :: "net_IP \<Rightarrow> bool" where
  "isZeros [] = True"
| "isZeros (b # bs) = (if b \<noteq> 0 then False else isZeros bs)"

text \<open>
  \<^verbatim>\<open>func (ip IP) To4() IP\<close>: a 4-byte address is returned as it is, a 16-byte
  address with the IPv4-in-IPv6 prefix gives its last four bytes, anything else
  \<^verbatim>\<open>nil\<close>.
\<close>

definition To4 :: "net_IP \<Rightarrow> net_IP" where
  "To4 a =
     (if length a = IPv4len then a
      else if length a = IPv6len \<and> isZeros (take 10 a) \<and> a ! 10 = 255 \<and> a ! 11 = 255
        then drop 12 (take 16 a)
      else [])"

text \<open>\<^verbatim>\<open>func (ip IP) Equal(x IP) bool\<close>\<close>

definition IP_Equal :: "net_IP \<Rightarrow> net_IP \<Rightarrow> bool" where
  "IP_Equal a x =
     (if length a = length x then a = x
      else if length a = IPv4len \<and> length x = IPv6len
        then take 12 x = v4InV6Prefix \<and> a = drop 12 x
      else if length a = IPv6len \<and> length x = IPv4len
        then take 12 a = v4InV6Prefix \<and> drop 12 a = x
      else False)"

subsection \<open>Public-IP discovery\<close>

text \<open>
  \<^verbatim>\<open>resolver.lookup\<close>. The first argument is what \<^verbatim>\<open>r.LookupIPAddr\<close> answers
  for a dial address and a host name; the query is sent to port 53 of
  \<^verbatim>\<open>dns.resolver\<close>.
\<close>

definition lookup ::
  "(string \<Rightarrow> string \<Rightarrow> IPAddr list \<times> error option) \<Rightarrow> resolver
     \<Rightarrow> (resolver \<times> error option) \<times> event list" where
  "lookup LookupIPAddr dns =
     (let dial = resolver dns @ '':53'';
          ev = DNSQuery dial (addr dns)
      in case LookupIPAddr dial (addr dns) of
           (a, Some err) \<Rightarrow> ((dns, Some (''DNS lookup error: '' @ err)), [ev])
         | (a, None) \<Rightarrow> ((dns\<lparr>ip := a\<rparr>, None), [ev]))"

text \<open>
  \<^verbatim>\<open>newPublicIP\<close>. \<^verbatim>\<open>dns.ip[0]\<close> on an empty slice is Go's run-time panic
  "index out of range [0] with length 0": the \<open>Inl\<close> result.
\<close>

definition newPublicIP ::
  "(string \<Rightarrow> string \<Rightarrow> IPAddr list \<times> error option)
     \<Rightarrow> (panic + net_IP \<times> error option) \<times> event list" where
  "newPublicIP LookupIPAddr =
     (let dns = \<lparr>addr = ''myip.opendns.com'', resolver = ''resolver1.opendns.com'', ip = []\<rparr>
      in case lookup LookupIPAddr dns of
           ((dns', Some err), evs) \<Rightarrow> (Inr ([], Some err), evs)
         | ((dns', None), evs) \<Rightarrow>
             (case ip dns' of
                [] \<Rightarrow> (Inl (IndexOutOfRange 0 0), evs)
              | a # _ \<Rightarrow> (Inr (IP a, None), evs)))"

subsection \<open>Locating the record\<close>

text \<open>\<^verbatim>\<open>fmt.Sprintf("%s.%s", a, z)\<close>\<close>

definition Sprintf_s_dot_s :: "string \<Rightarrow> string \<Rightarrow> string" where
  "Sprintf_s_dot_s a z = a @ ''.'' @ z"

text \<open>
  The \<^verbatim>\<open>for _, r := range recs\<close> loop of \<^verbatim>\<open>getRecord\<close>, with its
  \<^verbatim>\<open>break\<close>. \<open>P\<close> is \<^verbatim>\<open>net.ParseIP\<close>.
\<close>

fun getRecord_loop :: "(string \<Rightarrow> net_IP) \<Rightarrow> dynIP \<Rightarrow> DNSRecord list \<Rightarrow> dynIP" where
  "getRecord_loop P d [] = d"
| "getRecord_loop P d (r # recs) =
     (if Name r = Sprintf_s_dot_s (aRecord d) (zoneName d)
      then d\<lparr>record_d := r, rIP := To4 (P (Content r))\<rparr>
      else getRecord_loop P d recs)"

text \<open>\<^verbatim>\<open>func (d *dynIP) getRecord() error\<close>: the updated \<^verbatim>\<open>*d\<close> and the error.\<close>

definition getRecord ::
  "(string \<Rightarrow> net_IP) \<Rightarrow> dynIP \<Rightarrow> (dynIP \<times> error option) \<times> event list" where
  "getRecord P d =
     (case ZoneIDByName (api d) (zoneName d) of
        (zoneID, Some err) \<Rightarrow> ((d, Some err), [CallZoneIDByName (zoneName d)])
      | (zoneID, None) \<Rightarrow>
          (let a = DNSRecord_zero\<lparr>Type := ''A''\<rparr>;
               evs = [CallZoneIDByName (zoneName d), CallDNSRecords zoneID a]
           in case DNSRecords (api d) zoneID a of
                (recs, Some err) \<Rightarrow> ((d, Some err), evs)
              | (recs, None) \<Rightarrow> ((getRecord_loop P d recs, None), evs)))"

subsection \<open>Reconciling\<close>

text \<open>
  \<^verbatim>\<open>func (d *dynIP) Sync() error\<close>. \<open>S\<close> is \<^verbatim>\<open>net.IP.String\<close>, which the
  \<^verbatim>\<open>%s\<close> verbs of the two log lines call too. \<^verbatim>\<open>Sync\<close> assigns to no field
  of \<^verbatim>\<open>*d\<close>, so the model returns the error and the events only.
\<close>

definition Sync :: "(net_IP \<Rightarrow> string) \<Rightarrow> dynIP \<Rightarrow> error option \<times> event list" where
  "Sync S d =
     (if IP_Equal (dIP d) (rIP d) then (None, [])
      else
        (let warn = Log WarnLevel
               (''DNS A record ('' @ S (rIP d) @ '') is out of sync with Dynamic IP (''
                  @ S (dIP d) @ '')'');
             record = (record_d d)\<lparr>Content := S (dIP d)\<rparr>;
             call = CallUpdateDNSRecord (ZoneID (record_d d)) (ID (record_d d)) record
         in case UpdateDNSRecord (api d) (ZoneID (record_d d)) (ID (record_d d)) record of
              Some err \<Rightarrow> (Some err, [warn, call])
            | None \<Rightarrow>
                (None, [warn, call, Log InfoLevel
                   (''DNS A record ('' @ S (rIP d) @ '') has been synched with Dynamic IP (''
                      @ S (dIP d) @ '')'')])))"

text \<open>The \<^verbatim>\<open>UpdateDNSRecord\<close> calls among the events.\<close>

fun is_update :: "event \<Rightarrow> bool" where
  "is_update (CallUpdateDNSRecord z i r) = True"
| "is_update e = False"

definition update_calls :: "event list \<Rightarrow> event list" where
  "update_calls evs = filter is_update evs"

subsection \<open>Configuration\<close>

text \<open>
  The configuration library, as far as \<^verbatim>\<open>main\<close> uses it: a value set by the
  environment (\<^verbatim>\<open>AutomaticEnv\<close>) comes first, then the configuration file, then the
  default registered with \<^verbatim>\<open>SetDefault\<close>; \<^verbatim>\<open>GetString\<close> of a key that none of
  them sets is the empty string. Keys are the dotted paths the program writes.
\<close>

record Viper =
  defaults :: "string \<rightharpoonup> string"
  config :: "string \<rightharpoonup> string"
  environ :: "string \<rightharpoonup> string"

definition SetDefault :: "string \<Rightarrow> string \<Rightarrow> Viper \<Rightarrow> Viper" where
  "SetDefault k v vp = vp\<lparr>defaults := (defaults vp)(k \<mapsto> v)\<rparr>"

definition GetString :: "Viper \<Rightarrow> string \<Rightarrow> string" where
  "GetString vp k =
     (case environ vp k of
        Some v \<Rightarrow> v
      | None \<Rightarrow>
          (case config vp k of
             Some v \<Rightarrow> v
           | None \<Rightarrow> (case defaults vp k of Some v \<Rightarrow> v | None \<Rightarrow> [])))"

subsection \<open>The loop of \<^verbatim>\<open>main\<close>\<close>

text \<open>What the outside answers during one tick.\<close>

record world =
  LookupIPAddr :: "string \<Rightarrow> string \<Rightarrow> IPAddr list \<times> error option"
  cf_api :: API

text \<open>
  How a run ends: \<open>Returned\<close> when \<^verbatim>\<open>main\<close> returns, \<open>Exited\<close> after
  \<^verbatim>\<open>log.Fatal\<close>, \<open>Panicked\<close> after a run-time panic. A run that has not ended
  has the ending \<open>None\<close>: the loop waits for a tick the ticker has not sent yet.
\<close>

datatype ending = Returned | Exited | Panicked panic

text \<open>The struct literal \<^verbatim>\<open>dynIP{api: ..., zoneName: ..., aRecord: ..., dIP: ...}\<close>.\<close>

definition new_dynIP :: "Viper \<Rightarrow> API \<Rightarrow> net_IP \<Rightarrow> dynIP" where
  "new_dynIP vp a ipaddr =
     \<lparr>api = a, zoneName = GetString vp ''dns.zone'', record_d = DNSRecord_zero,
      aRecord = GetString vp ''dns.record'', rIP = [], dIP = ipaddr\<rparr>"

text \<open>
  The part of the loop body after the discovery: \<^verbatim>\<open>getRecord\<close>, its error
  printed, then \<^verbatim>\<open>Sync\<close>, its error printed.
\<close>

definition locate_and_sync ::
  "(string \<Rightarrow> net_IP) \<Rightarrow> (net_IP \<Rightarrow> string) \<Rightarrow> dynIP \<Rightarrow> event list" where
  "locate_and_sync P S dyn =
     (case getRecord P dyn of
        ((dyn', err), evs) \<Rightarrow>
          (let evs1 = (case err of
                         Some e \<Rightarrow> evs @ [Log InfoLevel (''error getting remote ip: '' @ e)]
                       | None \<Rightarrow> evs)
           in case Sync S dyn' of
                (Some e, evs') \<Rightarrow>
                  evs1 @ evs' @ [Log InfoLevel (''error syncing remote DNS: '' @ e)]
              | (None, evs') \<Rightarrow> evs1 @ evs'))"

text \<open>
  One pass through the loop body. The first component is \<open>None\<close> when the body
  reaches its end, so that the loop goes on to wait for the next tick.
\<close>

definition tick_body ::
  "(string \<Rightarrow> net_IP) \<Rightarrow> (net_IP \<Rightarrow> string) \<Rightarrow> Viper \<Rightarrow> world
     \<Rightarrow> ending option \<times> event list" where
  "tick_body P S vp w =
     (case newPublicIP (LookupIPAddr w) of
        (Inl p, evs) \<Rightarrow> (Some (Panicked p), evs)
      | (Inr (a, Some err), evs) \<Rightarrow> (Some Returned, evs @ [Log ErrorLevel err])
      | (Inr (a, None), evs) \<Rightarrow>
          (None, evs @ locate_and_sync P S (new_dynIP vp (cf_api w) a)))"

text \<open>
  \<^verbatim>\<open>for range time.NewTicker(tick).C\<close>: one pass per tick received. The list holds
  the worlds of the ticks the ticker sends, in order.
\<close>

fun ticker_loop ::
  "(string \<Rightarrow> net_IP) \<Rightarrow> (net_IP \<Rightarrow> string) \<Rightarrow> Viper \<Rightarrow> world list
     \<Rightarrow> ending option \<times> event list" where
  "ticker_loop P S vp [] = (None, [])"
| "ticker_loop P S vp (w # ws) =
     (case tick_body P S vp w of
        (Some e, evs) \<Rightarrow> (Some e, evs)
      | (None, evs) \<Rightarrow>
          (case ticker_loop P S vp ws of (e, evs') \<Rightarrow> (e, evs @ evs')))"

text \<open>
  The start of \<^verbatim>\<open>main\<close>: the default, the configuration file, and what the loop
  body reads from the configuration afterwards.
\<close>

definition main_defaults :: "(string \<rightharpoonup> string) \<Rightarrow> Viper" where
  "main_defaults env =
     SetDefault ''record'' ''@'' \<lparr>defaults = Map.empty, config = Map.empty, environ = env\<rparr>"

definition ReadInConfig :: "(string \<rightharpoonup> string) \<Rightarrow> Viper \<Rightarrow> Viper" where
  "ReadInConfig file vp = vp\<lparr>config := file\<rparr>"

text \<open>
  What \<^verbatim>\<open>main\<close> meets before the loop: the environment, the configuration file
  (its settings, or the error of reading it) and its path, whether the provider's
  client can be made from a key and an e-mail address, and
  \<^verbatim>\<open>time.ParseDuration\<close>.
\<close>

record startup =
  env_vars :: "string \<rightharpoonup> string"
  config_file :: "(string \<rightharpoonup> string) \<times> error option"
  ConfigFileUsed :: string
  cf_New :: "string \<Rightarrow> string \<Rightarrow> error option"
  ParseDuration :: "string \<Rightarrow> int \<times> error option"

text \<open>
  \<^verbatim>\<open>func main()\<close>. \<^verbatim>\<open>time.NewTicker\<close> panics on a duration that is not
  positive.
\<close>

definition main ::
  "(string \<Rightarrow> net_IP) \<Rightarrow> (net_IP \<Rightarrow> string) \<Rightarrow> startup \<Rightarrow> world list
     \<Rightarrow> ending option \<times> event list" where
  "main P S st ws =
     (case config_file st of
        (file, Some err) \<Rightarrow> (Some Exited, [Log FatalLevel (''configuration: '' @ err)])
      | (file, None) \<Rightarrow>
          (let vp = ReadInConfig file (main_defaults (env_vars st));
               ev = Log InfoLevel
                 (''configuration: loading configuration file from '' @ [CHR 0x27]
                    @ ConfigFileUsed st @ [CHR 0x27])
           in case cf_New st (GetString vp ''cloudflare.apiKey'')
                     (GetString vp ''cloudflare.email'') of
                Some err \<Rightarrow> (Some Exited, [ev, Log FatalLevel err])
              | None \<Rightarrow>
                  (case ParseDuration st (GetString vp ''tick'') of
                     (t, Some err) \<Rightarrow> (Some Exited, [ev, Log FatalLevel err])
                   | (t, None) \<Rightarrow>
                       (if t \<le> 0 then (Some (Panicked NonPositiveInterval), [ev])
                        else (case ticker_loop P S vp ws of
                                (e, evs) \<Rightarrow> (e, ev # evs))))))"

subsection \<open>Example inputs\<close>

text \<open>
  Concrete inputs for the instances below: a parser and a printer that know three
  addresses (the parser gives the 16-byte form, as \<^verbatim>\<open>net.ParseIP\<close> does), a
  configuration file, a provider that knows the zone \<^verbatim>\<open>example.com\<close>, and a world
  made of a DNS answer and a provider.
\<close>

definition example_ParseIP :: "string \<Rightarrow> net_IP" where
  "example_ParseIP s =
     (if s = ''198.51.100.5'' then v4InV6Prefix @ [198, 51, 100, 5]
      else if s = ''198.51.100.9'' then v4InV6Prefix @ [198, 51, 100, 9]
      else if s = ''203.0.113.7'' then v4InV6Prefix @ [203, 0, 113, 7]
      else [])"

definition example_String :: "net_IP \<Rightarrow> string" where
  "example_String a =
     (if a = [] then ''<nil>''
      else if To4 a = [198, 51, 100, 5] then ''198.51.100.5''
      else if To4 a = [198, 51, 100, 9] then ''198.51.100.9''
      else if To4 a = [203, 0, 113, 7] then ''203.0.113.7''
      else ''?'')"

definition example_config :: "string \<rightharpoonup> string" where
  "example_config =
     [''dns.zone'' \<mapsto> ''example.com'', ''dns.record'' \<mapsto> ''home'', ''tick'' \<mapsto> ''5m'']"

definition example_api :: "DNSRecord list \<times> error option \<Rightarrow> API" where
  "example_api listing =
     \<lparr>ZoneIDByName = (\<lambda>z. if z = ''example.com'' then (''zone-1'', None)
                           else ([], Some ''zone could not be found'')),
      DNSRecords = (\<lambda>z r. listing),
      UpdateDNSRecord = (\<lambda>z i r. None)\<rparr>"

definition example_record :: "string \<Rightarrow> string \<Rightarrow> DNSRecord" where
  "example_record n c =
     \<lparr>ID = ''rec-1'', Type = ''A'', Name = n, Content = c, ZoneID = ''zone-1''\<rparr>"

definition example_world :: "IPAddr list \<times> error option \<Rightarrow> API \<Rightarrow> world" where
  "example_world answer a = \<lparr>LookupIPAddr = (\<lambda>dial host. answer), cf_api = a\<rparr>"

definition example_dynIP :: "net_IP \<Rightarrow> string \<Rightarrow> net_IP \<Rightarrow> dynIP" where
  "example_dynIP recorded c discovered =
     \<lparr>api = example_api ([], None), zoneName = ''example.com'',
      record_d = example_record ''home.example.com'' c, aRecord = ''home'',
      rIP = recorded, dIP = discovered\<rparr>"

lemmas example_defs =
  example_ParseIP_def example_String_def example_config_def example_api_def
  example_record_def example_world_def example_dynIP_def

lemmas program_defs =
  tick_body_def newPublicIP_def lookup_def ReadInConfig_def main_defaults_def
  SetDefault_def GetString_def new_dynIP_def locate_and_sync_def getRecord_def Sync_def
  IP_Equal_def DNSRecord_zero_def Sprintf_s_dot_s_def To4_def IPv4len_def IPv6len_def
  v4InV6Prefix_def update_calls_def

section \<open>Properties\<close>

subsection \<open>Address equality\<close>

lemma length_16_elements:
  "length (a :: 'a list) = 16 \<Longrightarrow>
     \<exists>x0 x1 x2 x3 x4 x5 x6 x7 x8 x9 x10 x11 x12 x13 x14 x15.
       a = [x0, x1, x2, x3, x4, x5, x6, x7, x8, x9, x10, x11, x12, x13, x14, x15]"
  by (clarsimp simp: numeral_eq_Suc length_Suc_conv)

text \<open>The test of \<^verbatim>\<open>To4\<close> on a 16-byte address is the prefix test of \<^verbatim>\<open>Equal\<close>.\<close>

lemma v4InV6Prefix_iff:
  assumes "length a = 16"
  shows "(take 12 a = v4InV6Prefix) = (isZeros (take 10 a) \<and> a ! 10 = 255 \<and> a ! 11 = 255)"
proof -
  from length_16_elements [OF assms]
  obtain x0 x1 x2 x3 x4 x5 x6 x7 x8 x9 x10 x11 x12 x13 x14 x15 where
    "a = [x0, x1, x2, x3, x4, x5, x6, x7, x8, x9, x10, x11, x12, x13, x14, x15]"
    by blast
  then show ?thesis by (auto simp: v4InV6Prefix_def)
qed

lemma To4_length_16:
  "length a = 16 \<Longrightarrow> To4 a = (if take 12 a = v4InV6Prefix then drop 12 a else [])"
  by (simp add: To4_def IPv4len_def IPv6len_def v4InV6Prefix_iff)

lemma To4_length_4: "length a = 4 \<Longrightarrow> To4 a = a"
  by (simp add: To4_def IPv4len_def)

lemma To4_not_nil:
  "To4 a \<noteq> [] \<Longrightarrow> length a = 4 \<or> length a = 16 \<and> take 12 a = v4InV6Prefix"
  by (auto simp: To4_def IPv4len_def IPv6len_def v4InV6Prefix_iff split: if_splits)

text \<open>On IPv4 addresses, in either form, \<^verbatim>\<open>Equal\<close> compares the 4-byte forms.\<close>

lemma IP_Equal_To4:
  assumes "To4 a \<noteq> []" and "To4 b \<noteq> []"
  shows "IP_Equal a b = (To4 a = To4 b)"
proof -
  consider "length a = 4" "length b = 4"
    | "length a = 4" "length b = 16" "take 12 b = v4InV6Prefix"
    | "length a = 16" "take 12 a = v4InV6Prefix" "length b = 4"
    | "length a = 16" "take 12 a = v4InV6Prefix" "length b = 16" "take 12 b = v4InV6Prefix"
    using To4_not_nil [OF assms(1)] To4_not_nil [OF assms(2)] by blast
  then show ?thesis
  proof cases
    case 1
    then show ?thesis by (simp add: IP_Equal_def To4_length_4)
  next
    case 2
    then show ?thesis
      by (simp add: IP_Equal_def To4_length_4 To4_length_16 IPv4len_def IPv6len_def)
  next
    case 3
    then show ?thesis
      by (simp add: IP_Equal_def To4_length_4 To4_length_16 IPv4len_def IPv6len_def)
  next
    case 4
    have "a = take 12 a @ drop 12 a" and "b = take 12 b @ drop 12 b"
      by simp_all
    with 4 have "(a = b) = (drop 12 a = drop 12 b)"
      by metis
    with 4 show ?thesis by (simp add: IP_Equal_def To4_length_16)
  qed
qed

subsection \<open>\<^verbatim>\<open>Sync\<close>\<close>

lemma Sync_equal: "IP_Equal (dIP d) (rIP d) \<Longrightarrow> Sync S d = (None, [])"
  by (simp add: Sync_def)

lemma Sync_update_calls:
  "\<not> IP_Equal (dIP d) (rIP d) \<Longrightarrow>
     update_calls (snd (Sync S d)) =
       [CallUpdateDNSRecord (ZoneID (record_d d)) (ID (record_d d))
          ((record_d d)\<lparr>Content := S (dIP d)\<rparr>)]"
  by (simp add: Sync_def update_calls_def Let_def split: option.split)

text \<open>
  Claim C1. For IPv4 addresses \<open>dIP d\<close> and \<open>rIP d\<close>, each in its 4-byte or its
  16-byte form, \<^verbatim>\<open>Sync\<close> calls \<^verbatim>\<open>UpdateDNSRecord\<close> if and only if their 4-byte
  forms differ; when the 4-byte forms are equal, \<^verbatim>\<open>Sync\<close> returns \<^verbatim>\<open>nil\<close> and
  does nothing at all (no call, no log line), whatever the forms of the two addresses.
\<close>

theorem Sync_updates_iff_addresses_differ:
  assumes "To4 (dIP d) \<noteq> []" and "To4 (rIP d) \<noteq> []"
  shows "(update_calls (snd (Sync S d)) \<noteq> []) = (To4 (dIP d) \<noteq> To4 (rIP d))
       \<and> (To4 (dIP d) = To4 (rIP d) \<longrightarrow> Sync S d = (None, []))"
proof (cases "IP_Equal (dIP d) (rIP d)")
  case True
  then have "To4 (dIP d) = To4 (rIP d)"
    using assms by (simp add: IP_Equal_To4)
  moreover have "Sync S d = (None, [])"
    using True by (rule Sync_equal)
  ultimately show ?thesis by (simp add: update_calls_def)
next
  case False
  then have "To4 (dIP d) \<noteq> To4 (rIP d)"
    using assms by (simp add: IP_Equal_To4)
  then show ?thesis
    using Sync_update_calls [OF False, of S] by simp
qed

text \<open>
  The instance: the discovered address 203.0.113.7 in its 16-byte form against the same
  address recorded in its 4-byte form.
\<close>

theorem Sync_updates_iff_addresses_differ_witness:
  "To4 (dIP (example_dynIP [203, 0, 113, 7] ''203.0.113.7''
               (v4InV6Prefix @ [203, 0, 113, 7]))) \<noteq> []
   \<and> To4 (rIP (example_dynIP [203, 0, 113, 7] ''203.0.113.7''
                 (v4InV6Prefix @ [203, 0, 113, 7]))) \<noteq> []
   \<and> Sync example_String
       (example_dynIP [203, 0, 113, 7] ''203.0.113.7'' (v4InV6Prefix @ [203, 0, 113, 7]))
     = (None, [])"
  using Sync_updates_iff_addresses_differ
    [of "example_dynIP [203, 0, 113, 7] ''203.0.113.7'' (v4InV6Prefix @ [203, 0, 113, 7])"
        example_String]
  by (simp add: example_dynIP_def v4InV6Prefix_def To4_def IPv4len_def IPv6len_def)

text \<open>
  Claim C6. When the discovered address differs from the recorded one, the one
  \<^verbatim>\<open>UpdateDNSRecord\<close> call of \<^verbatim>\<open>Sync\<close> is keyed by the zone ID and the record
  ID of the located record, and its payload is the located record with the content
  replaced by the text of the discovered address: every other field is the located
  record's.
\<close>

theorem Sync_update_payload:
  assumes "\<not> IP_Equal (dIP d) (rIP d)"
  shows "(let payload = (record_d d)\<lparr>Content := S (dIP d)\<rparr>
          in update_calls (snd (Sync S d)) =
               [CallUpdateDNSRecord (ZoneID (record_d d)) (ID (record_d d)) payload]
           \<and> Content payload = S (dIP d)
           \<and> ID payload = ID (record_d d)
           \<and> Type payload = Type (record_d d)
           \<and> Name payload = Name (record_d d)
           \<and> ZoneID payload = ZoneID (record_d d))"
  using Sync_update_calls [OF assms, of S] by (simp add: Let_def)

text \<open>
  The instance: the record holds 198.51.100.5, the discovered address is 198.51.100.9.
\<close>

theorem Sync_update_payload_witness:
  "\<not> IP_Equal (dIP (example_dynIP [198, 51, 100, 5] ''198.51.100.5'' [198, 51, 100, 9]))
         (rIP (example_dynIP [198, 51, 100, 5] ''198.51.100.5'' [198, 51, 100, 9]))
   \<and> update_calls (snd (Sync example_String
        (example_dynIP [198, 51, 100, 5] ''198.51.100.5'' [198, 51, 100, 9])))
     = [CallUpdateDNSRecord ''zone-1'' ''rec-1''
          \<lparr>ID = ''rec-1'', Type = ''A'', Name = ''home.example.com'',
           Content = ''198.51.100.9'', ZoneID = ''zone-1''\<rparr>]"
proof -
  have differ:
    "\<not> IP_Equal (dIP (example_dynIP [198, 51, 100, 5] ''198.51.100.5'' [198, 51, 100, 9]))
           (rIP (example_dynIP [198, 51, 100, 5] ''198.51.100.5'' [198, 51, 100, 9]))"
    by (simp add: example_dynIP_def IP_Equal_def)
  show ?thesis
    using differ Sync_update_payload [OF differ, of example_String]
    by (simp add: example_dynIP_def example_record_def example_String_def To4_def
        IPv4len_def Let_def)
qed

text \<open>
  Claim C9. Two invocations of \<^verbatim>\<open>Sync\<close> in succession. The first, with drift, makes
  exactly one update call. The second has the same discovered address and the record as
  it is located after that update: the record of the payload, with the recorded address
  parsed from its content as \<^verbatim>\<open>getRecord\<close> does. When that content denotes the
  discovered address (the record is synced), the second invocation makes no update
  call.
\<close>

theorem Sync_twice_one_update:
  assumes drift: "\<not> IP_Equal (dIP d) (rIP d)"
      and unchanged: "dIP d' = dIP d"
      and located: "record_d d' = (record_d d)\<lparr>Content := S (dIP d)\<rparr>"
                   "rIP d' = To4 (P (Content (record_d d')))"
      and synced: "IP_Equal (dIP d) (To4 (P (S (dIP d))))"
  shows "length (update_calls (snd (Sync S d))) = 1
       \<and> update_calls (snd (Sync S d')) = []"
proof -
  have first: "length (update_calls (snd (Sync S d))) = 1"
    using Sync_update_calls [OF drift, of S] by simp
  have "IP_Equal (dIP d') (rIP d')"
    using unchanged located synced by simp
  then have "Sync S d' = (None, [])"
    by (rule Sync_equal)
  then have "update_calls (snd (Sync S d')) = []"
    by (simp add: update_calls_def)
  with first show ?thesis by simp
qed

text \<open>
  The instance: the record holds 198.51.100.5 and the discovered address is
  198.51.100.9; the second invocation finds the record with the content 198.51.100.9.
\<close>

theorem Sync_twice_one_update_witness:
  "\<not> IP_Equal (dIP (example_dynIP [198, 51, 100, 5] ''198.51.100.5'' [198, 51, 100, 9]))
         (rIP (example_dynIP [198, 51, 100, 5] ''198.51.100.5'' [198, 51, 100, 9]))
   \<and> IP_Equal [198, 51, 100, 9]
        (To4 (example_ParseIP (example_String [198, 51, 100, 9])))
   \<and> length (update_calls (snd (Sync example_String
        (example_dynIP [198, 51, 100, 5] ''198.51.100.5'' [198, 51, 100, 9])))) = 1
   \<and> update_calls (snd (Sync example_String
        (example_dynIP [198, 51, 100, 9] ''198.51.100.9'' [198, 51, 100, 9]))) = []"
proof -
  have drift:
    "\<not> IP_Equal (dIP (example_dynIP [198, 51, 100, 5] ''198.51.100.5'' [198, 51, 100, 9]))
           (rIP (example_dynIP [198, 51, 100, 5] ''198.51.100.5'' [198, 51, 100, 9]))"
    by (simp add: example_dynIP_def IP_Equal_def)
  have unchanged:
    "dIP (example_dynIP [198, 51, 100, 9] ''198.51.100.9'' [198, 51, 100, 9])
       = dIP (example_dynIP [198, 51, 100, 5] ''198.51.100.5'' [198, 51, 100, 9])"
    by (simp add: example_dynIP_def)
  have located1:
    "record_d (example_dynIP [198, 51, 100, 9] ''198.51.100.9'' [198, 51, 100, 9])
       = (record_d (example_dynIP [198, 51, 100, 5] ''198.51.100.5'' [198, 51, 100, 9]))
           \<lparr>Content := example_String
              (dIP (example_dynIP [198, 51, 100, 5] ''198.51.100.5'' [198, 51, 100, 9]))\<rparr>"
    by (simp add: example_dynIP_def example_record_def example_String_def To4_def
        IPv4len_def)
  have located2:
    "rIP (example_dynIP [198, 51, 100, 9] ''198.51.100.9'' [198, 51, 100, 9])
       = To4 (example_ParseIP (Content (record_d
           (example_dynIP [198, 51, 100, 9] ''198.51.100.9'' [198, 51, 100, 9]))))"
    by (simp add: example_dynIP_def example_record_def example_ParseIP_def
        v4InV6Prefix_def To4_def IPv4len_def IPv6len_def)
  have synced:
    "IP_Equal (dIP (example_dynIP [198, 51, 100, 5] ''198.51.100.5'' [198, 51, 100, 9]))
       (To4 (example_ParseIP (example_String
          (dIP (example_dynIP [198, 51, 100, 5] ''198.51.100.5'' [198, 51, 100, 9])))))"
    by (simp add: example_dynIP_def example_String_def example_ParseIP_def
        v4InV6Prefix_def To4_def IPv4len_def IPv6len_def IP_Equal_def)
  show ?thesis
    using drift synced
      Sync_twice_one_update
        [where d = "example_dynIP [198, 51, 100, 5] ''198.51.100.5'' [198, 51, 100, 9]"
           and d' = "example_dynIP [198, 51, 100, 9] ''198.51.100.9'' [198, 51, 100, 9]"
           and S = example_String and P = example_ParseIP,
         OF drift unchanged located1 located2 synced]
    by (simp add: example_dynIP_def)
qed

subsection \<open>The record locator\<close>

lemma getRecord_loop_find:
  "getRecord_loop P d recs =
     (case find (\<lambda>r. Name r = Sprintf_s_dot_s (aRecord d) (zoneName d)) recs of
        None \<Rightarrow> d
      | Some r \<Rightarrow> d\<lparr>record_d := r, rIP := To4 (P (Content r))\<rparr>)"
  by (induction recs) simp_all

text \<open>
  Claim C5. The loop of \<^verbatim>\<open>getRecord\<close> selects the first record of the listing whose
  name is equal, as a string, to the label, a dot and the zone name, and leaves
  \<^verbatim>\<open>*d\<close> as it was when no name is equal. In particular, with the label
  \<^verbatim>\<open>home\<close> and the zone \<^verbatim>\<open>example.com\<close>, a listing of records named
  \<^verbatim>\<open>home.sub.example.com\<close> or \<^verbatim>\<open>homex.example.com\<close> selects nothing.
\<close>

theorem getRecord_loop_first_exact_match:
  "getRecord_loop P d recs =
     (case find (\<lambda>r. Name r = aRecord d @ ''.'' @ zoneName d) recs of
        None \<Rightarrow> d
      | Some r \<Rightarrow> d\<lparr>record_d := r, rIP := To4 (P (Content r))\<rparr>)
   \<and> (aRecord d = ''home'' \<and> zoneName d = ''example.com''
        \<and> (\<forall>r \<in> set recs.
              Name r = ''home.sub.example.com'' \<or> Name r = ''homex.example.com'')
      \<longrightarrow> getRecord_loop P d recs = d)"
proof -
  have first: "getRecord_loop P d recs =
     (case find (\<lambda>r. Name r = aRecord d @ ''.'' @ zoneName d) recs of
        None \<Rightarrow> d
      | Some r \<Rightarrow> d\<lparr>record_d := r, rIP := To4 (P (Content r))\<rparr>)"
    using getRecord_loop_find [of P d recs] by (simp add: Sprintf_s_dot_s_def)
  have "find (\<lambda>r. Name r = aRecord d @ ''.'' @ zoneName d) recs = None"
    if "aRecord d = ''home''" and "zoneName d = ''example.com''"
      and "\<forall>r \<in> set recs.
             Name r = ''home.sub.example.com'' \<or> Name r = ''homex.example.com''"
    using that by (auto simp: find_None_iff)
  with first show ?thesis by simp
qed

text \<open>
  The instance: a listing of the two near misses, then the record
  \<^verbatim>\<open>home.example.com\<close> behind them, which is the one selected.
\<close>

theorem getRecord_loop_first_exact_match_witness:
  "getRecord_loop example_ParseIP (example_dynIP [] [] [198, 51, 100, 9])
     [example_record ''home.sub.example.com'' ''198.51.100.5'',
      example_record ''homex.example.com'' ''198.51.100.5'']
     = example_dynIP [] [] [198, 51, 100, 9]
   \<and> getRecord_loop example_ParseIP (example_dynIP [] [] [198, 51, 100, 9])
       [example_record ''home.sub.example.com'' ''198.51.100.5'',
        example_record ''homex.example.com'' ''198.51.100.5'',
        example_record ''home.example.com'' ''203.0.113.7'']
     = example_dynIP [203, 0, 113, 7] ''203.0.113.7'' [198, 51, 100, 9]"
  using
    getRecord_loop_first_exact_match
      [of example_ParseIP "example_dynIP [] [] [198, 51, 100, 9]"
          "[example_record ''home.sub.example.com'' ''198.51.100.5'',
            example_record ''homex.example.com'' ''198.51.100.5'']"]
    getRecord_loop_first_exact_match
      [of example_ParseIP "example_dynIP [] [] [198, 51, 100, 9]"
          "[example_record ''home.sub.example.com'' ''198.51.100.5'',
            example_record ''homex.example.com'' ''198.51.100.5'',
            example_record ''home.example.com'' ''203.0.113.7'']"]
  by (simp add: example_dynIP_def example_record_def example_ParseIP_def v4InV6Prefix_def
      To4_def IPv4len_def IPv6len_def)

subsection \<open>The loop\<close>

lemma ticker_loop_append:
  "ticker_loop P S vp pre = (None, evs) \<Longrightarrow>
     ticker_loop P S vp (pre @ ws) =
       (case ticker_loop P S vp ws of (e, evs') \<Rightarrow> (e, evs @ evs'))"
proof (induction pre arbitrary: evs)
  case Nil
  then show ?case by (simp split: prod.split)
next
  case (Cons w pre)
  then show ?case
    by (auto split: prod.splits option.splits)
qed

lemma newPublicIP_error:
  "LookupIPAddr w ''resolver1.opendns.com:53'' ''myip.opendns.com'' = (a, Some err) \<Longrightarrow>
     newPublicIP (LookupIPAddr w) =
       (Inr ([], Some (''DNS lookup error: '' @ err)),
        [DNSQuery ''resolver1.opendns.com:53'' ''myip.opendns.com''])"
  by (simp add: newPublicIP_def lookup_def)

text \<open>
  Claim C4. When the loop has run through the ticks \<open>pre\<close> and is waiting, and the
  DNS lookup of the next tick \<open>w\<close> fails, the error is logged and \<^verbatim>\<open>main\<close>
  returns: the run ends there, with nothing after the log line, whatever ticks
  \<open>rest\<close> the ticker would have sent.
\<close>

theorem discovery_failure_ends_loop:
  assumes "ticker_loop P S vp pre = (None, evs)"
      and "LookupIPAddr w ''resolver1.opendns.com:53'' ''myip.opendns.com'' = (a, Some err)"
  shows "ticker_loop P S vp (pre @ w # rest) =
           (Some Returned,
            evs @ [DNSQuery ''resolver1.opendns.com:53'' ''myip.opendns.com'',
                   Log ErrorLevel (''DNS lookup error: '' @ err)])"
proof -
  have "tick_body P S vp w =
          (Some Returned, [DNSQuery ''resolver1.opendns.com:53'' ''myip.opendns.com'',
                           Log ErrorLevel (''DNS lookup error: '' @ err)])"
    using newPublicIP_error [OF assms(2)] by (simp add: tick_body_def)
  then have "ticker_loop P S vp (w # rest) =
          (Some Returned, [DNSQuery ''resolver1.opendns.com:53'' ''myip.opendns.com'',
                           Log ErrorLevel (''DNS lookup error: '' @ err)])"
    by simp
  with ticker_loop_append [OF assms(1), of "w # rest"] show ?thesis by simp
qed

text \<open>
  The instance: a first tick that finds the record in sync, a second tick whose lookup
  times out, and a third tick that never runs.
\<close>

theorem discovery_failure_ends_loop_witness:
  "ticker_loop example_ParseIP example_String
     (ReadInConfig example_config (main_defaults Map.empty))
     [example_world ([\<lparr>IP = [203, 0, 113, 7], Zone = []\<rparr>], None)
        (example_api ([example_record ''home.example.com'' ''203.0.113.7''], None))]
     = (None,
        [DNSQuery ''resolver1.opendns.com:53'' ''myip.opendns.com'',
         CallZoneIDByName ''example.com'',
         CallDNSRecords ''zone-1''
           \<lparr>ID = [], Type = ''A'', Name = [], Content = [], ZoneID = []\<rparr>])
   \<and> LookupIPAddr (example_world ([], Some ''i/o timeout'') (example_api ([], None)))
       ''resolver1.opendns.com:53'' ''myip.opendns.com'' = ([], Some ''i/o timeout'')
   \<and> ticker_loop example_ParseIP example_String
       (ReadInConfig example_config (main_defaults Map.empty))
       [example_world ([\<lparr>IP = [203, 0, 113, 7], Zone = []\<rparr>], None)
          (example_api ([example_record ''home.example.com'' ''203.0.113.7''], None)),
        example_world ([], Some ''i/o timeout'') (example_api ([], None)),
        example_world ([\<lparr>IP = [198, 51, 100, 9], Zone = []\<rparr>], None)
          (example_api ([example_record ''home.example.com'' ''203.0.113.7''], None))]
     = (Some Returned,
        [DNSQuery ''resolver1.opendns.com:53'' ''myip.opendns.com'',
         CallZoneIDByName ''example.com'',
         CallDNSRecords ''zone-1''
           \<lparr>ID = [], Type = ''A'', Name = [], Content = [], ZoneID = []\<rparr>,
         DNSQuery ''resolver1.opendns.com:53'' ''myip.opendns.com'',
         Log ErrorLevel ''DNS lookup error: i/o timeout''])"
proof -
  have ran:
    "ticker_loop example_ParseIP example_String
       (ReadInConfig example_config (main_defaults Map.empty))
       [example_world ([\<lparr>IP = [203, 0, 113, 7], Zone = []\<rparr>], None)
          (example_api ([example_record ''home.example.com'' ''203.0.113.7''], None))]
     = (None,
        [DNSQuery ''resolver1.opendns.com:53'' ''myip.opendns.com'',
         CallZoneIDByName ''example.com'',
         CallDNSRecords ''zone-1''
           \<lparr>ID = [], Type = ''A'', Name = [], Content = [], ZoneID = []\<rparr>])"
    by (simp add: program_defs example_defs)
  have fails:
    "LookupIPAddr (example_world ([], Some ''i/o timeout'') (example_api ([], None)))
       ''resolver1.opendns.com:53'' ''myip.opendns.com'' = ([], Some ''i/o timeout'')"
    by (simp add: example_world_def)
  show ?thesis
    using ran fails
      discovery_failure_ends_loop
        [OF ran fails,
         of "[example_world ([\<lparr>IP = [198, 51, 100, 9], Zone = []\<rparr>], None)
               (example_api ([example_record ''home.example.com'' ''203.0.113.7''], None))]"]
    by simp
qed

subsection \<open>Where the program departs from its specification\<close>

text \<open>
  Claim C2 (not met by the program). A tick in which no listed record has the
  configured name: the configuration asks for \<^verbatim>\<open>home.example.com\<close>, the provider
  lists \<^verbatim>\<open>www.example.com\<close> only. \<^verbatim>\<open>getRecord\<close> returns \<^verbatim>\<open>nil\<close> and leaves
  the record empty and the recorded address \<^verbatim>\<open>nil\<close>; \<^verbatim>\<open>Sync\<close> finds it unequal
  to the discovered address and calls \<^verbatim>\<open>UpdateDNSRecord\<close> with an empty zone ID and
  an empty record ID.
\<close>

theorem tick_without_match_calls_update:
  "tick_body example_ParseIP example_String
     (ReadInConfig example_config (main_defaults Map.empty))
     (example_world ([\<lparr>IP = [198, 51, 100, 9], Zone = []\<rparr>], None)
        (example_api ([example_record ''www.example.com'' ''198.51.100.5''], None)))
   = (None,
      [DNSQuery ''resolver1.opendns.com:53'' ''myip.opendns.com'',
       CallZoneIDByName ''example.com'',
       CallDNSRecords ''zone-1''
         \<lparr>ID = [], Type = ''A'', Name = [], Content = [], ZoneID = []\<rparr>,
       Log WarnLevel ''DNS A record (<nil>) is out of sync with Dynamic IP (198.51.100.9)'',
       CallUpdateDNSRecord [] []
         \<lparr>ID = [], Type = [], Name = [], Content = ''198.51.100.9'', ZoneID = []\<rparr>,
       Log InfoLevel
         ''DNS A record (<nil>) has been synched with Dynamic IP (198.51.100.9)''])"
  by (simp add: program_defs example_defs)

text \<open>
  Claim C3 (not met by the program). A tick in which the zone lookup fails: the
  configured zone is \<^verbatim>\<open>example.org\<close>, which the provider does not know. The error
  is printed, but the loop body goes on to \<^verbatim>\<open>Sync\<close>, which calls
  \<^verbatim>\<open>UpdateDNSRecord\<close> with an empty zone ID and an empty record ID; the body then
  reaches its end and the loop waits for the next tick.
\<close>

theorem tick_locate_error_still_syncs:
  "tick_body example_ParseIP example_String
     (ReadInConfig (example_config(''dns.zone'' \<mapsto> ''example.org''))
        (main_defaults Map.empty))
     (example_world ([\<lparr>IP = [198, 51, 100, 9], Zone = []\<rparr>], None)
        (example_api ([example_record ''home.example.com'' ''198.51.100.5''], None)))
   = (None,
      [DNSQuery ''resolver1.opendns.com:53'' ''myip.opendns.com'',
       CallZoneIDByName ''example.org'',
       Log InfoLevel ''error getting remote ip: zone could not be found'',
       Log WarnLevel ''DNS A record (<nil>) is out of sync with Dynamic IP (198.51.100.9)'',
       CallUpdateDNSRecord [] []
         \<lparr>ID = [], Type = [], Name = [], Content = ''198.51.100.9'', ZoneID = []\<rparr>,
       Log InfoLevel
         ''DNS A record (<nil>) has been synched with Dynamic IP (198.51.100.9)''])"
  by (simp add: program_defs example_defs)


text \<open>
  Claim C8 (not met by the program). A configuration that sets the zone and the tick
  but not \<^verbatim>\<open>dns.record\<close>: the default \<^verbatim>\<open>@\<close> is registered under the key
  \<^verbatim>\<open>record\<close>, the label is read from the key \<^verbatim>\<open>dns.record\<close>, so the label is
  the empty string and the name looked for is \<^verbatim>\<open>.example.com\<close>.
\<close>

theorem dns_record_unset_gives_empty_label:
  "GetString
     (ReadInConfig [''dns.zone'' \<mapsto> ''example.com'', ''tick'' \<mapsto> ''5m'']
        (main_defaults Map.empty)) ''record'' = ''@''
   \<and> aRecord (new_dynIP
       (ReadInConfig [''dns.zone'' \<mapsto> ''example.com'', ''tick'' \<mapsto> ''5m'']
          (main_defaults Map.empty))
       (example_api ([], None)) [198, 51, 100, 9]) = []
   \<and> Sprintf_s_dot_s
       (aRecord (new_dynIP
          (ReadInConfig [''dns.zone'' \<mapsto> ''example.com'', ''tick'' \<mapsto> ''5m'']
             (main_defaults Map.empty))
          (example_api ([], None)) [198, 51, 100, 9]))
       (zoneName (new_dynIP
          (ReadInConfig [''dns.zone'' \<mapsto> ''example.com'', ''tick'' \<mapsto> ''5m'']
             (main_defaults Map.empty))
          (example_api ([], None)) [198, 51, 100, 9]))
     = ''.example.com''"
  by (simp add: program_defs)

end
